theory Spec2Isabelle
  imports Main "HOL-Library.Word"
begin

section \<open>Machine types\<close>

text \<open>
  \<open>size_t\<close> is a 64-bit unsigned integer: \<open>+\<close> and \<open>-\<close> on it wrap around.
  Element counts (\<open>std::queue::size()\<close>, \<open>std::string::size()\<close>) are lengths of
  lists and are kept as \<open>nat\<close>; a container of the program never holds \<open>2 ^ 64\<close>
  elements.
\<close>

type_synonym size_t = "64 word"

section \<open>\<open>rtc::impl::Queue\<close> (src/impl/queue.hpp)\<close>

text \<open>
  The members of the class. \<open>mMutex\<close> and the two condition variables are not fields:
  every member function runs under the mutex, so each is one atomic step on this record.
  \<open>condition.wait(lock, pred)\<close> is the loop \<open>while (!pred()) wait(lock)\<close>: the
  predicate is evaluated at the call and again each time the thread is woken. A
  function that waits is modelled by one such evaluation: it returns \<open>None\<close> where the
  predicate fails and the thread goes (back) to waiting. The threads that wait in \<open>push\<close>
  and the wake-ups that release them are kept in the record \<open>queue_system\<close> below.
\<close>

record 'a queue =
  mLimit :: nat
  mAmount :: size_t
  mQueue :: "'a list"
  mAmountFunction :: "'a \<Rightarrow> size_t"
  mStopping :: bool

text \<open>The constructor; \<open>func = None\<close> is the \<open>nullptr\<close> default argument.\<close>

definition Queue :: "nat \<Rightarrow> ('a \<Rightarrow> size_t) option \<Rightarrow> 'a queue" where
  "Queue limit func =
     \<lparr>mLimit = limit, mAmount = 0, mQueue = [],
      mAmountFunction = (case func of Some f \<Rightarrow> f | None \<Rightarrow> (\<lambda>element. 1)),
      mStopping = False\<rparr>"

definition stop :: "'a queue \<Rightarrow> 'a queue" where
  "stop q = q\<lparr>mStopping := True\<rparr>"

definition running :: "'a queue \<Rightarrow> bool" where
  "running q = (mQueue q \<noteq> [] \<or> \<not> mStopping q)"

definition empty_q :: "'a queue \<Rightarrow> bool" where
  "empty_q q = (mQueue q = [])"

definition full :: "'a queue \<Rightarrow> bool" where
  "full q = (length (mQueue q) \<ge> mLimit q)"

definition size_q :: "'a queue \<Rightarrow> nat" where
  "size_q q = length (mQueue q)"

definition amount :: "'a queue \<Rightarrow> size_t" where
  "amount q = mAmount q"

definition pushImpl :: "'a queue \<Rightarrow> 'a \<Rightarrow> 'a queue" where
  "pushImpl q element =
     (if mStopping q then q
      else q\<lparr>mAmount := mAmount q + mAmountFunction q element,
             mQueue := mQueue q @ [element]\<rparr>)"

definition popImpl :: "'a queue \<Rightarrow> 'a option \<times> 'a queue" where
  "popImpl q =
     (case mQueue q of
        [] \<Rightarrow> (None, q)
      | front # rest \<Rightarrow>
          (Some front, q\<lparr>mAmount := mAmount q - mAmountFunction q front, mQueue := rest\<rparr>))"

text \<open>
  The predicate \<open>push\<close> waits for on \<open>mPushCondition\<close>, and one evaluation of it
  followed by \<open>pushImpl\<close>: the first at the call of \<open>push\<close>, the later ones when the
  waiting thread is woken.
\<close>

definition push_ready :: "'a queue \<Rightarrow> bool" where
  "push_ready q = (mLimit q = 0 \<or> length (mQueue q) < mLimit q \<or> mStopping q)"

definition push :: "'a queue \<Rightarrow> 'a \<Rightarrow> 'a queue option" where
  "push q element = (if push_ready q then Some (pushImpl q element) else None)"

text \<open>The predicate \<open>pop\<close> and \<open>wait\<close> wait for on \<open>mPopCondition\<close>.\<close>

definition pop_ready :: "'a queue \<Rightarrow> bool" where
  "pop_ready q = (mQueue q \<noteq> [] \<or> mStopping q)"

definition pop :: "'a queue \<Rightarrow> ('a option \<times> 'a queue) option" where
  "pop q = (if pop_ready q then Some (popImpl q) else None)"

definition tryPop :: "'a queue \<Rightarrow> 'a option \<times> 'a queue" where
  "tryPop q = popImpl q"

definition peek :: "'a queue \<Rightarrow> 'a option" where
  "peek q = (case mQueue q of [] \<Rightarrow> None | front # rest \<Rightarrow> Some front)"

definition exchange :: "'a queue \<Rightarrow> 'a \<Rightarrow> 'a option \<times> 'a queue" where
  "exchange q element =
     (case mQueue q of
        [] \<Rightarrow> (None, q)
      | front # rest \<Rightarrow> (Some front, q\<lparr>mQueue := element # rest\<rparr>))"

text \<open>
  The sum of the amount function over the elements in the queue, in \<open>size_t\<close>
  arithmetic: the quantity \<open>mAmount\<close> is meant to track.
\<close>

definition sum_amount :: "'a queue \<Rightarrow> size_t" where
  "sum_amount q = sum_list (map (mAmountFunction q) (mQueue q))"

text \<open>
  Sequences of calls on one queue, without the waiting threads. A call that has to wait is
  left out of the run and the queue is as before (the \<open>Push\<close> of this datatype is used on
  queues where \<open>push\<close> does not wait); results are dropped.
\<close>

datatype 'a queue_op = Push 'a | Pop | TryPop | Peek | Exchange 'a | Stop

fun apply_queue_op :: "'a queue_op \<Rightarrow> 'a queue \<Rightarrow> 'a queue" where
  "apply_queue_op (Push x) q = (case push q x of Some q' \<Rightarrow> q' | None \<Rightarrow> q)"
| "apply_queue_op Pop q = (case pop q of Some (r, q') \<Rightarrow> q' | None \<Rightarrow> q)"
| "apply_queue_op TryPop q = snd (tryPop q)"
| "apply_queue_op Peek q = q"
| "apply_queue_op (Exchange x) q = snd (exchange q x)"
| "apply_queue_op Stop q = stop q"

fun run_queue_ops :: "'a queue_op list \<Rightarrow> 'a queue \<Rightarrow> 'a queue" where
  "run_queue_ops [] q = q"
| "run_queue_ops (c # cs) q = run_queue_ops cs (apply_queue_op c q)"

fun is_exchange :: "'a queue_op \<Rightarrow> bool" where
  "is_exchange (Exchange x) = True"
| "is_exchange c = False"

text \<open>
  \<open>pops n q\<close>: \<open>n\<close> calls of \<open>pop()\<close> in a row, with their results in order; \<open>None\<close>
  when one of them blocks. \<open>tryPops\<close>: the same with \<open>tryPop()\<close>, which never blocks.
\<close>

fun pops :: "nat \<Rightarrow> 'a queue \<Rightarrow> ('a option list \<times> 'a queue) option" where
  "pops 0 q = Some ([], q)"
| "pops (Suc n) q =
     (case pop q of
        None \<Rightarrow> None
      | Some (r, q') \<Rightarrow>
          (case pops n q' of None \<Rightarrow> None | Some (rs, q'') \<Rightarrow> Some (r # rs, q'')))"

fun tryPops :: "nat \<Rightarrow> 'a queue \<Rightarrow> 'a option list \<times> 'a queue" where
  "tryPops 0 q = ([], q)"
| "tryPops (Suc n) q =
     (case tryPop q of (r, q') \<Rightarrow> (case tryPops n q' of (rs, q'') \<Rightarrow> (r # rs, q'')))"

subsection \<open>Threads waiting in \<open>push\<close>\<close>

text \<open>
  The queue together with the calls of \<open>push\<close> that are inside
  \<open>mPushCondition.wait\<close>, each with its element and with whether \<open>mPushCondition\<close> was
  notified since the thread began to wait, and with a log of the calls of \<open>push\<close> that
  have returned: the element, whether the call had to wait, and the queue before and
  after the evaluation of the wait predicate that let it through.
\<close>

record 'a push_return =
  ret_element :: 'a
  ret_waited :: bool
  ret_before :: "'a queue"
  ret_after :: "'a queue"

record 'a queue_system =
  sys_queue :: "'a queue"
  push_waiting :: "('a \<times> bool) list"
  push_returned :: "'a push_return list"

definition start_system :: "'a queue \<Rightarrow> 'a queue_system" where
  "start_system q = \<lparr>sys_queue = q, push_waiting = [], push_returned = []\<rparr>"

text \<open>
  The events of a run: a call of a member function by some thread, and the wake-up of
  the \<open>i\<close>-th waiting \<open>push\<close>. \<open>stop\<close> is the only function that notifies
  \<open>mPushCondition\<close> (\<open>notify_all\<close>); \<open>pop\<close>, \<open>tryPop\<close>, \<open>peek\<close> and \<open>exchange\<close>
  notify nothing. A notified thread wakes at some later point (\<open>Notified_wake\<close>); the
  language also lets \<open>wait(lock)\<close> return with no notification (\<open>Spurious_wake\<close>). A
  woken thread evaluates the predicate again and waits again where it fails. A \<open>pop\<close>
  that has to wait is not tracked: it takes its element at a later \<open>Call_pop\<close>.
\<close>

datatype 'a queue_event =
    Call_push 'a
  | Call_pop
  | Call_tryPop
  | Call_peek
  | Call_exchange 'a
  | Call_stop
  | Notified_wake nat
  | Spurious_wake nat

definition push_pass :: "bool \<Rightarrow> 'a \<Rightarrow> 'a queue_system \<Rightarrow> 'a queue_system option" where
  "push_pass waited x s =
     (case push (sys_queue s) x of
        None \<Rightarrow> None
      | Some q' \<Rightarrow>
          Some (s\<lparr>sys_queue := q',
                  push_returned := push_returned s @
                    [\<lparr>ret_element = x, ret_waited = waited,
                      ret_before = sys_queue s, ret_after = q'\<rparr>]\<rparr>))"

definition wake_push :: "nat \<Rightarrow> 'a queue_system \<Rightarrow> 'a queue_system" where
  "wake_push i s =
     (case push_pass True (fst (push_waiting s ! i)) s of
        Some s' \<Rightarrow>
          s'\<lparr>push_waiting := take i (push_waiting s) @ drop (Suc i) (push_waiting s)\<rparr>
      | None \<Rightarrow>
          s\<lparr>push_waiting := (push_waiting s)[i := (fst (push_waiting s ! i), False)]\<rparr>)"

fun system_step :: "'a queue_event \<Rightarrow> 'a queue_system \<Rightarrow> 'a queue_system" where
  "system_step (Call_push x) s =
     (case push_pass False x s of
        Some s' \<Rightarrow> s'
      | None \<Rightarrow> s\<lparr>push_waiting := push_waiting s @ [(x, False)]\<rparr>)"
| "system_step Call_pop s =
     (case pop (sys_queue s) of
        Some (r, q') \<Rightarrow> s\<lparr>sys_queue := q'\<rparr>
      | None \<Rightarrow> s)"
| "system_step Call_tryPop s = s\<lparr>sys_queue := snd (tryPop (sys_queue s))\<rparr>"
| "system_step Call_peek s = s"
| "system_step (Call_exchange x) s = s\<lparr>sys_queue := snd (exchange (sys_queue s) x)\<rparr>"
| "system_step Call_stop s =
     s\<lparr>sys_queue := stop (sys_queue s),
       push_waiting := map (\<lambda>w. (fst w, True)) (push_waiting s)\<rparr>"
| "system_step (Notified_wake i) s =
     (if i < length (push_waiting s) \<and> snd (push_waiting s ! i) then wake_push i s else s)"
| "system_step (Spurious_wake i) s =
     (if i < length (push_waiting s) then wake_push i s else s)"

fun run_events :: "'a queue_event list \<Rightarrow> 'a queue_system \<Rightarrow> 'a queue_system" where
  "run_events [] s = s"
| "run_events (e # es) s = run_events es (system_step e s)"

fun is_spurious :: "'a queue_event \<Rightarrow> bool" where
  "is_spurious (Spurious_wake i) = True"
| "is_spurious e = False"

text \<open>
  What the log holds for a call of \<open>push\<close> that returned on a queue of limit
  \<open>limit\<close>: the wait predicate held in the queue before, and the queue after is what
  \<open>pushImpl\<close> makes of it.
\<close>

definition good_return :: "nat \<Rightarrow> 'a push_return \<Rightarrow> bool" where
  "good_return limit r \<longleftrightarrow>
     mLimit (ret_before r) = limit \<and> push_ready (ret_before r)
     \<and> ret_after r = pushImpl (ret_before r) (ret_element r)"

text \<open>
  The state of affairs while no thread wakes spuriously: a waiting \<open>push\<close> is marked
  notified only in a stopped queue, and a \<open>push\<close> that had to wait returned from a
  stopped queue, which it left as it was.
\<close>

definition waited_inv :: "'a queue_system \<Rightarrow> bool" where
  "waited_inv s \<longleftrightarrow>
     (\<forall>w\<in>set (push_waiting s). snd w \<longrightarrow> mStopping (sys_queue s))
     \<and> (\<forall>r\<in>set (push_returned s).
          ret_waited r \<longrightarrow> mStopping (ret_before r) \<and> ret_after r = ret_before r)"

section \<open>\<open>rtc::synchronized_stored_callback\<close> (include/rtc/utils.hpp)\<close>

text \<open>
  A callback is a \<open>std::function<void(Args...)>\<close>: code that acts on the rest of the
  program. The model takes the rest of the program as a state \<open>'w\<close> and a callback as a
  function from the argument tuple \<open>'a\<close> to a change of \<open>'w\<close>; \<open>None\<close> is the empty
  \<open>std::function\<close> (\<open>nullptr\<close>). The recursive mutex is not a field: \<open>operator=\<close> and
  \<open>operator()\<close> hold it for their whole body, so each is one step. A callback that calls
  back into its own slot while it runs is outside the model.

  The derived class adds the member \<open>stored\<close> to the base class, as the record
  extension does.
\<close>

record ('a, 'w) synchronized_callback =
  callback :: "('a \<Rightarrow> 'w \<Rightarrow> 'w) option"

record ('a, 'w) synchronized_stored_callback = "('a, 'w) synchronized_callback" +
  stored :: "'a option"

text \<open>\<open>synchronized_callback::set\<close> and \<open>synchronized_callback::call\<close>.\<close>

definition synchronized_callback_set ::
  "('a \<Rightarrow> 'w \<Rightarrow> 'w) option \<Rightarrow> ('a, 'w, 'z) synchronized_callback_scheme
     \<Rightarrow> ('a, 'w, 'z) synchronized_callback_scheme" where
  "synchronized_callback_set func s = s\<lparr>callback := func\<rparr>"

definition synchronized_callback_call ::
  "'a \<Rightarrow> ('a, 'w, 'z) synchronized_callback_scheme \<Rightarrow> 'w \<Rightarrow> bool \<times> 'w" where
  "synchronized_callback_call args s w =
     (case callback s of
        None \<Rightarrow> (False, w)
      | Some f \<Rightarrow> (True, f args w))"

text \<open>The overriding \<open>synchronized_stored_callback::set\<close> and \<open>::call\<close>.\<close>

definition synchronized_stored_callback_set ::
  "('a \<Rightarrow> 'w \<Rightarrow> 'w) option \<Rightarrow> ('a, 'w) synchronized_stored_callback \<Rightarrow> 'w
     \<Rightarrow> ('a, 'w) synchronized_stored_callback \<times> 'w" where
  "synchronized_stored_callback_set func s w =
     (let s1 = synchronized_callback_set func s in
      case func of
        None \<Rightarrow> (s1, w)
      | Some f \<Rightarrow>
          (case stored s1 of
             None \<Rightarrow> (s1, w)
           | Some args \<Rightarrow> (s1\<lparr>stored := None\<rparr>, f args w)))"

definition synchronized_stored_callback_call ::
  "'a \<Rightarrow> ('a, 'w) synchronized_stored_callback \<Rightarrow> 'w
     \<Rightarrow> bool \<times> ('a, 'w) synchronized_stored_callback \<times> 'w" where
  "synchronized_stored_callback_call args s w =
     (case synchronized_callback_call args s w of
        (called, w') \<Rightarrow>
          if \<not> called then (True, s\<lparr>stored := Some args\<rparr>, w') else (True, s, w'))"

text \<open>
  The public interface. \<open>operator()\<close> is the one of the base class, which reaches the
  overriding \<open>call\<close> through virtual dispatch.

  The assignment \<open>cb = func\<close> of a \<open>std::function\<close> to a
  \<open>synchronized_stored_callback\<close>: the derived class declares no assignment operator,
  so its implicit copy assignment hides those of the base class and \<open>func\<close> is first
  converted to a temporary \<open>synchronized_stored_callback\<close> by the forwarding
  constructor (the base constructor stores \<open>func\<close> in the temporary with the base
  \<open>set\<close>; the temporary's \<open>stored\<close> is empty). The implicit copy assignment then runs
  the copy assignment of the base class, which calls the overriding \<open>set\<close> on the
  target with the temporary's callback, and copies the member \<open>stored\<close> of the
  temporary, which is empty, into the target.
\<close>

definition stored_callback_assign ::
  "('a \<Rightarrow> 'w \<Rightarrow> 'w) option \<Rightarrow> ('a, 'w) synchronized_stored_callback \<Rightarrow> 'w
     \<Rightarrow> ('a, 'w) synchronized_stored_callback \<times> 'w" where
  "stored_callback_assign func s w =
     (case synchronized_stored_callback_set func s w of
        (s1, w1) \<Rightarrow> (s1\<lparr>stored := None\<rparr>, w1))"

definition stored_callback_invoke ::
  "'a \<Rightarrow> ('a, 'w) synchronized_stored_callback \<Rightarrow> 'w
     \<Rightarrow> bool \<times> ('a, 'w) synchronized_stored_callback \<times> 'w" where
  "stored_callback_invoke args s w = synchronized_stored_callback_call args s w"

section \<open>\<open>SctpTransport::PayloadId\<close> (src/impl/sctptransport.hpp)\<close>

text \<open>The enumeration, with underlying type \<open>uint32_t\<close>, and the value of each enumerator.\<close>

datatype PayloadId =
    PPID_CONTROL
  | PPID_STRING
  | PPID_BINARY_PARTIAL
  | PPID_BINARY
  | PPID_STRING_PARTIAL
  | PPID_STRING_EMPTY
  | PPID_BINARY_EMPTY

fun PayloadId_value :: "PayloadId \<Rightarrow> 32 word" where
  "PayloadId_value PPID_CONTROL = 50"
| "PayloadId_value PPID_STRING = 51"
| "PayloadId_value PPID_BINARY_PARTIAL = 52"
| "PayloadId_value PPID_BINARY = 53"
| "PayloadId_value PPID_STRING_PARTIAL = 54"
| "PayloadId_value PPID_STRING_EMPTY = 56"
| "PayloadId_value PPID_BINARY_EMPTY = 57"

section \<open>Exceptions\<close>

text \<open>The exceptions the modelled code throws, each with its message.\<close>

datatype exception =
    invalid_argument string
  | runtime_error string
  | logic_error string

section \<open>\<open>WebSocket::outgoing\<close> (src/impl/websocket.cpp)\<close>

datatype ws_state = Connecting | Open | Closing | Closed

text \<open>
  A message is a byte buffer (\<open>Message\<close> derives from \<open>binary\<close>); \<open>message->size()\<close>
  is the number of its bytes. The pointer passed to \<open>outgoing\<close> is taken to be non-null,
  as the code dereferences it unchecked.
\<close>

type_synonym binary = "char list"

text \<open>
  Modelled from the spec: \<open>WsTransport\<close> and its \<open>send\<close> are not in src. The lower
  transport is the list of the messages handed to it; what \<open>send\<close> returns
  (``false = buffered, not rejected'') is a parameter of \<open>outgoing\<close>.
\<close>

record wstransport =
  handed :: "binary list"

record websocket =
  state :: ws_state
  mWsTransport :: "wstransport option"

text \<open>
  \<open>DEFAULT_MAX_MESSAGE_SIZE\<close> is declared outside src: it is the first parameter of
  \<open>maxMessageSize\<close> and \<open>outgoing\<close>.
\<close>

definition maxMessageSize :: "nat \<Rightarrow> nat" where
  "maxMessageSize DEFAULT_MAX_MESSAGE_SIZE = DEFAULT_MAX_MESSAGE_SIZE"

text \<open>An exception leaves the object as it was; the result comes with the object after the call.\<close>

definition outgoing ::
  "nat \<Rightarrow> (wstransport \<Rightarrow> binary \<Rightarrow> bool) \<Rightarrow> websocket \<Rightarrow> binary
     \<Rightarrow> (exception + bool) \<times> websocket" where
  "outgoing DEFAULT_MAX_MESSAGE_SIZE send_result ws message =
     (if state ws \<noteq> Open \<or> mWsTransport ws = None
      then (Inl (runtime_error ''WebSocket is not open''), ws)
      else if length message > maxMessageSize DEFAULT_MAX_MESSAGE_SIZE
      then (Inl (runtime_error ''Message size exceeds limit''), ws)
      else (let transport = the (mWsTransport ws) in
            (Inr (send_result transport message),
             ws\<lparr>mWsTransport :=
                  Some (transport\<lparr>handed := handed transport @ [message]\<rparr>)\<rparr>)))"

section \<open>The C API adapter (src/capi.cpp)\<close>

subsection \<open>Integers, return codes, exceptions\<close>

text \<open>
  A C \<open>int\<close> is an \<open>int\<close> here, taken to be in the 32-bit range. The conversion
  \<open>int(n)\<close> of a \<open>size_t\<close> keeps the low 32 bits as a two's complement value.
  Negation and \<open>std::abs\<close> are the mathematical ones (they are undefined in C++ on
  \<open>INT_MIN\<close> only).
\<close>

definition int_of_size_t :: "nat \<Rightarrow> int" where
  "int_of_size_t n = sint (word_of_nat n :: 32 word)"

text \<open>
  Modelled from the spec: the return codes are declared in rtc.h, which is not in src
  (spec 6: \<open>SUCCESS=0\<close>, \<open>INVALID=-1\<close>, \<open>FAILURE=-2\<close>, \<open>NOT_AVAIL=-3\<close>,
  \<open>TOO_SMALL=-4\<close>).
\<close>

definition RTC_ERR_SUCCESS :: int where "RTC_ERR_SUCCESS = 0"
definition RTC_ERR_INVALID :: int where "RTC_ERR_INVALID = - 1"
definition RTC_ERR_FAILURE :: int where "RTC_ERR_FAILURE = - 2"
definition RTC_ERR_NOT_AVAIL :: int where "RTC_ERR_NOT_AVAIL = - 3"
definition RTC_ERR_TOO_SMALL :: int where "RTC_ERR_TOO_SMALL = - 4"

text \<open>\<open>wrap\<close> runs the body and turns an exception into a return code.\<close>

fun wrap :: "exception + int \<Rightarrow> int" where
  "wrap (Inr r) = r"
| "wrap (Inl (invalid_argument what)) = RTC_ERR_INVALID"
| "wrap (Inl e) = RTC_ERR_FAILURE"

subsection \<open>\<open>copyAndReturn\<close>\<close>

text \<open>
  A caller-supplied buffer \<open>char *buffer\<close> is \<open>None\<close> for the null pointer and
  otherwise the bytes of the memory it points to; the caller promises \<open>size\<close> bytes
  there. The functions return their result and the buffer after the call. The two
  overloads for \<open>string\<close> and \<open>binary\<close> carry the type in their names.
\<close>

definition copyAndReturn_string :: "string \<Rightarrow> char list option \<Rightarrow> int \<Rightarrow> int \<times> char list option" where
  "copyAndReturn_string s buffer sz =
     (case buffer of
        None \<Rightarrow> (int_of_size_t (length s + 1), None)
      | Some mem \<Rightarrow>
          if sz < int_of_size_t (length s + 1) then (RTC_ERR_TOO_SMALL, Some mem)
          else (int_of_size_t (length s + 1),
                Some (s @ [CHR 0x00] @ drop (length s + 1) mem)))"

definition copyAndReturn_binary :: "binary \<Rightarrow> char list option \<Rightarrow> int \<Rightarrow> int \<times> char list option" where
  "copyAndReturn_binary b buffer sz =
     (case buffer of
        None \<Rightarrow> (int_of_size_t (length b), None)
      | Some mem \<Rightarrow>
          if sz < int_of_size_t (length b) then (RTC_ERR_TOO_SMALL, Some mem)
          else (int_of_size_t (length b), Some (b @ drop (length b) mem)))"

subsection \<open>The objects behind the handles\<close>

text \<open>
  A C function pointer is a number; a callback argument of the API is \<open>None\<close> for the
  null pointer. A user pointer is any \<open>void *\<close>, \<open>0\<close> for \<open>nullptr\<close>.
\<close>

type_synonym funptr = nat
type_synonym user_ptr = nat

datatype message_variant = Binary_message binary | String_message string

text \<open>
  Modelled from the spec: the classes \<open>Channel\<close>, \<open>DataChannel\<close>, \<open>Track\<close> and
  \<open>PeerConnection\<close> are defined outside src; capi.cpp only calls them. Each object is
  the record of what those calls read and write: a channel is its receive queue
  (\<open>peek\<close> returns its first message and leaves it, \<open>receive\<close> removes it; neither
  blocks) and the handlers installed by \<open>onMessage\<close>; a peer connection has one slot
  per callback, set by the \<open>on...\<close> member function of that name, and its local
  description as the SDP string. The lambdas capi.cpp installs are kept as the values
  they capture, the handle and the C callback.
\<close>

record channel =
  recvQueue :: "message_variant list"
  messageCallback :: "(int \<times> funptr) option"

record data_channel =
  dc_channel :: channel
  label :: string
  protocol :: string

record peer_connection =
  localDescription :: "string option"
  stateChangeCallback :: "(int \<times> funptr) option"
  gatheringStateChangeCallback :: "(int \<times> funptr) option"
  signalingStateChangeCallback :: "(int \<times> funptr) option"

definition channel_peek :: "channel \<Rightarrow> message_variant option" where
  "channel_peek c = (case recvQueue c of [] \<Rightarrow> None | m # ms \<Rightarrow> Some m)"

definition channel_receive :: "channel \<Rightarrow> message_variant option \<times> channel" where
  "channel_receive c =
     (case recvQueue c of [] \<Rightarrow> (None, c) | m # ms \<Rightarrow> (Some m, c\<lparr>recvQueue := ms\<rparr>))"

definition onMessage :: "(int \<times> funptr) option \<Rightarrow> channel \<Rightarrow> channel" where
  "onMessage handlers c = c\<lparr>messageCallback := handlers\<rparr>"

definition onStateChange :: "(int \<times> funptr) option \<Rightarrow> peer_connection \<Rightarrow> peer_connection" where
  "onStateChange cb p = p\<lparr>stateChangeCallback := cb\<rparr>"

definition onGatheringStateChange :: "(int \<times> funptr) option \<Rightarrow> peer_connection \<Rightarrow> peer_connection" where
  "onGatheringStateChange cb p = p\<lparr>gatheringStateChangeCallback := cb\<rparr>"

definition onSignalingStateChange :: "(int \<times> funptr) option \<Rightarrow> peer_connection \<Rightarrow> peer_connection" where
  "onSignalingStateChange cb p = p\<lparr>signalingStateChangeCallback := cb\<rparr>"

text \<open>
  Modelled from the spec: \<open>Description::Video\<close>, \<open>Description::Audio\<close> and their
  member functions are defined outside src. A media description is its kind, mid,
  direction, and the registrations made on it in order: each \<open>add...Codec\<close> call is
  recorded as the codec it registers with the payload type (\<open>VP8Codec\<close> for the rtpmap
  \<open>VP8/90000\<close> of \<open>addVP8Codec\<close>; \<open>VP9Codec\<close> stands for the rtpmap \<open>VP9/90000\<close> the
  spec asks for), each \<open>addSSRC\<close> call with its arguments.
\<close>

datatype media_kind = Video | Audio

datatype codec_registration =
    H264Codec int
  | VP8Codec int
  | VP9Codec int
  | OpusCodec int
  | PCMUCodec int
  | PCMACodec int

record media =
  kind :: media_kind
  mid :: string
  direction :: int
  codecs :: "codec_registration list"
  ssrcs :: "(32 word \<times> string option \<times> string option \<times> string option) list"

definition Description_Video :: "string \<Rightarrow> int \<Rightarrow> media" where
  "Description_Video m d = \<lparr>kind = Video, mid = m, direction = d, codecs = [], ssrcs = []\<rparr>"

definition Description_Audio :: "string \<Rightarrow> int \<Rightarrow> media" where
  "Description_Audio m d = \<lparr>kind = Audio, mid = m, direction = d, codecs = [], ssrcs = []\<rparr>"

definition addH264Codec :: "int \<Rightarrow> media \<Rightarrow> media" where
  "addH264Codec payloadType desc = desc\<lparr>codecs := codecs desc @ [H264Codec payloadType]\<rparr>"

definition addVP8Codec :: "int \<Rightarrow> media \<Rightarrow> media" where
  "addVP8Codec payloadType desc = desc\<lparr>codecs := codecs desc @ [VP8Codec payloadType]\<rparr>"

definition addOpusCodec :: "int \<Rightarrow> media \<Rightarrow> media" where
  "addOpusCodec payloadType desc = desc\<lparr>codecs := codecs desc @ [OpusCodec payloadType]\<rparr>"

definition addPCMUCodec :: "int \<Rightarrow> media \<Rightarrow> media" where
  "addPCMUCodec payloadType desc = desc\<lparr>codecs := codecs desc @ [PCMUCodec payloadType]\<rparr>"

definition addPCMACodec :: "int \<Rightarrow> media \<Rightarrow> media" where
  "addPCMACodec payloadType desc = desc\<lparr>codecs := codecs desc @ [PCMACodec payloadType]\<rparr>"

definition addSSRC ::
  "32 word \<Rightarrow> string option \<Rightarrow> string option \<Rightarrow> string option \<Rightarrow> media \<Rightarrow> media" where
  "addSSRC s n m t desc = desc\<lparr>ssrcs := ssrcs desc @ [(s, n, m, t)]\<rparr>"

record track =
  tr_channel :: channel
  mMediaDescription :: media

text \<open>
  Modelled from the spec: the constructor of \<open>PeerConnection\<close>,
  \<open>PeerConnection::createDataChannel\<close> and \<open>PeerConnection::addTrack\<close> are defined
  outside src. A new peer connection has no callback and no local description; a new
  data channel has the given label and protocol; a new track has the given media
  description (spec 3, TrackState); both start with an empty receive queue and no
  handler. The configuration and the reliability settings are left out.
\<close>

definition new_channel :: channel where
  "new_channel = \<lparr>recvQueue = [], messageCallback = None\<rparr>"

definition new_PeerConnection :: peer_connection where
  "new_PeerConnection =
     \<lparr>localDescription = None, stateChangeCallback = None,
      gatheringStateChangeCallback = None, signalingStateChangeCallback = None\<rparr>"

definition createDataChannel :: "string \<Rightarrow> string \<Rightarrow> data_channel" where
  "createDataChannel l p = \<lparr>dc_channel = new_channel, label = l, protocol = p\<rparr>"

definition addTrack :: "media \<Rightarrow> track" where
  "addTrack desc = \<lparr>tr_channel = new_channel, mMediaDescription = desc\<rparr>"

subsection \<open>The registries\<close>

text \<open>
  The global variables of capi.cpp. The maps hold shared pointers; the objects are kept
  in the maps themselves, and a write through a pointer obtained from \<open>getChannel\<close> is
  the update \<open>putChannel\<close> of the entry it came from. The maps compiled under
  \<open>RTC_ENABLE_MEDIA\<close> and \<open>RTC_ENABLE_WEBSOCKET\<close> are left out. \<open>mutex\<close> is not a
  field: each function below is one step.
\<close>

record capi_state =
  peerConnectionMap :: "int \<rightharpoonup> peer_connection"
  dataChannelMap :: "int \<rightharpoonup> data_channel"
  trackMap :: "int \<rightharpoonup> track"
  userPointerMap :: "int \<rightharpoonup> user_ptr"
  lastId :: int

definition initial_state :: capi_state where
  "initial_state =
     \<lparr>peerConnectionMap = Map.empty, dataChannelMap = Map.empty, trackMap = Map.empty,
      userPointerMap = Map.empty, lastId = 0\<rparr>"

text \<open>\<open>std::unordered_map::emplace\<close> inserts only where the key is absent.\<close>

definition emplace :: "('k \<rightharpoonup> 'v) \<Rightarrow> 'k \<Rightarrow> 'v \<Rightarrow> ('k \<rightharpoonup> 'v)" where
  "emplace m k v = (case m k of None \<Rightarrow> m(k \<mapsto> v) | Some old \<Rightarrow> m)"

definition getUserPointer :: "capi_state \<Rightarrow> int \<Rightarrow> user_ptr option" where
  "getUserPointer st i = userPointerMap st i"

definition setUserPointer :: "capi_state \<Rightarrow> int \<Rightarrow> user_ptr \<Rightarrow> capi_state" where
  "setUserPointer st i ptr = st\<lparr>userPointerMap := (userPointerMap st)(i \<mapsto> ptr)\<rparr>"

definition rtcSetUserPointer :: "capi_state \<Rightarrow> int \<Rightarrow> user_ptr \<Rightarrow> capi_state" where
  "rtcSetUserPointer st i ptr = setUserPointer st i ptr"

definition getPeerConnection :: "capi_state \<Rightarrow> int \<Rightarrow> exception + peer_connection" where
  "getPeerConnection st i =
     (case peerConnectionMap st i of
        Some p \<Rightarrow> Inr p
      | None \<Rightarrow> Inl (invalid_argument ''PeerConnection ID does not exist''))"

definition getDataChannel :: "capi_state \<Rightarrow> int \<Rightarrow> exception + data_channel" where
  "getDataChannel st i =
     (case dataChannelMap st i of
        Some d \<Rightarrow> Inr d
      | None \<Rightarrow> Inl (invalid_argument ''DataChannel ID does not exist''))"

definition getTrack :: "capi_state \<Rightarrow> int \<Rightarrow> exception + track" where
  "getTrack st i =
     (case trackMap st i of
        Some t \<Rightarrow> Inr t
      | None \<Rightarrow> Inl (invalid_argument ''Track ID does not exist''))"

definition emplacePeerConnection :: "capi_state \<Rightarrow> peer_connection \<Rightarrow> int \<times> capi_state" where
  "emplacePeerConnection st ptr =
     (let pc = lastId st + 1 in
      (pc, st\<lparr>lastId := pc,
              peerConnectionMap := emplace (peerConnectionMap st) pc ptr,
              userPointerMap := emplace (userPointerMap st) pc 0\<rparr>))"

definition emplaceDataChannel :: "capi_state \<Rightarrow> data_channel \<Rightarrow> int \<times> capi_state" where
  "emplaceDataChannel st ptr =
     (let dc = lastId st + 1 in
      (dc, st\<lparr>lastId := dc,
              dataChannelMap := emplace (dataChannelMap st) dc ptr,
              userPointerMap := emplace (userPointerMap st) dc 0\<rparr>))"

definition emplaceTrack :: "capi_state \<Rightarrow> track \<Rightarrow> int \<times> capi_state" where
  "emplaceTrack st ptr =
     (let tr = lastId st + 1 in
      (tr, st\<lparr>lastId := tr,
              trackMap := emplace (trackMap st) tr ptr,
              userPointerMap := emplace (userPointerMap st) tr 0\<rparr>))"

definition getChannel :: "capi_state \<Rightarrow> int \<Rightarrow> exception + channel" where
  "getChannel st i =
     (case dataChannelMap st i of
        Some d \<Rightarrow> Inr (dc_channel d)
      | None \<Rightarrow>
          (case trackMap st i of
             Some t \<Rightarrow> Inr (tr_channel t)
           | None \<Rightarrow> Inl (invalid_argument ''DataChannel, Track, or WebSocket ID does not exist'')))"

definition putChannel :: "capi_state \<Rightarrow> int \<Rightarrow> channel \<Rightarrow> capi_state" where
  "putChannel st i c =
     (case dataChannelMap st i of
        Some d \<Rightarrow> st\<lparr>dataChannelMap := (dataChannelMap st)(i \<mapsto> d\<lparr>dc_channel := c\<rparr>)\<rparr>
      | None \<Rightarrow>
          (case trackMap st i of
             Some t \<Rightarrow> st\<lparr>trackMap := (trackMap st)(i \<mapsto> t\<lparr>tr_channel := c\<rparr>)\<rparr>
           | None \<Rightarrow> st))"

definition putPeerConnection :: "capi_state \<Rightarrow> int \<Rightarrow> peer_connection \<Rightarrow> capi_state" where
  "putPeerConnection st i p = st\<lparr>peerConnectionMap := (peerConnectionMap st)(i \<mapsto> p)\<rparr>"

subsection \<open>Peer connections and their callbacks\<close>

text \<open>The configuration argument of \<open>rtcCreatePeerConnection\<close> is left out.\<close>

definition rtcCreatePeerConnection :: "capi_state \<Rightarrow> int \<times> capi_state" where
  "rtcCreatePeerConnection st =
     (case emplacePeerConnection st new_PeerConnection of (pc, st') \<Rightarrow> (wrap (Inr pc), st'))"

definition rtcSetStateChangeCallback :: "capi_state \<Rightarrow> int \<Rightarrow> funptr option \<Rightarrow> int \<times> capi_state" where
  "rtcSetStateChangeCallback st pc cb =
     (case getPeerConnection st pc of
        Inl e \<Rightarrow> (wrap (Inl e), st)
      | Inr peerConnection \<Rightarrow>
          (wrap (Inr RTC_ERR_SUCCESS),
           putPeerConnection st pc
             (case cb of
                Some f \<Rightarrow> onStateChange (Some (pc, f)) peerConnection
              | None \<Rightarrow> onStateChange None peerConnection)))"

definition rtcSetGatheringStateChangeCallback ::
  "capi_state \<Rightarrow> int \<Rightarrow> funptr option \<Rightarrow> int \<times> capi_state" where
  "rtcSetGatheringStateChangeCallback st pc cb =
     (case getPeerConnection st pc of
        Inl e \<Rightarrow> (wrap (Inl e), st)
      | Inr peerConnection \<Rightarrow>
          (wrap (Inr RTC_ERR_SUCCESS),
           putPeerConnection st pc
             (case cb of
                Some f \<Rightarrow> onGatheringStateChange (Some (pc, f)) peerConnection
              | None \<Rightarrow> onGatheringStateChange None peerConnection)))"

definition rtcSetSignalingStateChangeCallback ::
  "capi_state \<Rightarrow> int \<Rightarrow> funptr option \<Rightarrow> int \<times> capi_state" where
  "rtcSetSignalingStateChangeCallback st pc cb =
     (case getPeerConnection st pc of
        Inl e \<Rightarrow> (wrap (Inl e), st)
      | Inr peerConnection \<Rightarrow>
          (wrap (Inr RTC_ERR_SUCCESS),
           putPeerConnection st pc
             (case cb of
                Some f \<Rightarrow> onSignalingStateChange (Some (pc, f)) peerConnection
              | None \<Rightarrow> onGatheringStateChange None peerConnection)))"


subsection \<open>Data channels and messages\<close>



definition rtcSetMessageCallback :: "capi_state \<Rightarrow> int \<Rightarrow> funptr option \<Rightarrow> int \<times> capi_state" where
  "rtcSetMessageCallback st i cb =
     (case getChannel st i of
        Inl e \<Rightarrow> (wrap (Inl e), st)
      | Inr channel \<Rightarrow>
          (wrap (Inr RTC_ERR_SUCCESS),
           putChannel st i
             (case cb of
                Some f \<Rightarrow> onMessage (Some (i, f)) channel
              | None \<Rightarrow> onMessage None channel)))"

text \<open>
  A call of the C message callback \<open>cb(id, data, size, ptr)\<close>, with the bytes at
  \<open>data\<close>. The two lambdas \<open>rtcSetMessageCallback\<close> installs, run on a binary and on a
  string message in the state \<open>st\<close>: each makes one call, or none when the handle has
  no user pointer entry.
\<close>

record message_call =
  call_cb :: funptr
  call_id :: int
  call_data :: "char list"
  call_size :: int
  call_ptr :: user_ptr

definition message_lambda_binary :: "capi_state \<Rightarrow> int \<Rightarrow> funptr \<Rightarrow> binary \<Rightarrow> message_call option" where
  "message_lambda_binary st i cb b =
     (case getUserPointer st i of
        Some ptr \<Rightarrow>
          Some \<lparr>call_cb = cb, call_id = i, call_data = b,
                call_size = int_of_size_t (length b), call_ptr = ptr\<rparr>
      | None \<Rightarrow> None)"

definition message_lambda_string :: "capi_state \<Rightarrow> int \<Rightarrow> funptr \<Rightarrow> string \<Rightarrow> message_call option" where
  "message_lambda_string st i cb s =
     (case getUserPointer st i of
        Some ptr \<Rightarrow>
          Some \<lparr>call_cb = cb, call_id = i, call_data = s @ [CHR 0x00],
                call_size = - int_of_size_t (length s + 1), call_ptr = ptr\<rparr>
      | None \<Rightarrow> None)"

text \<open>
  Modelled from the spec: the code that hands a received message to the installed
  handlers is outside src. A message goes to the handler of its variant (spec 9:
  exhaustive match on binary | string); nothing is called when no handler is installed.
\<close>

definition deliver_message :: "capi_state \<Rightarrow> int \<Rightarrow> message_variant \<Rightarrow> message_call option" where
  "deliver_message st i m =
     (case getChannel st i of
        Inl e \<Rightarrow> None
      | Inr channel \<Rightarrow>
          (case messageCallback channel of
             None \<Rightarrow> None
           | Some (h, cb) \<Rightarrow>
               (case m of
                  Binary_message b \<Rightarrow> message_lambda_binary st h cb b
                | String_message s \<Rightarrow> message_lambda_string st h cb s)))"

text \<open>
  \<open>rtcReceiveMessage(id, buffer, size)\<close>: \<open>size\<close> is \<open>None\<close> for a null pointer and
  otherwise the \<open>int\<close> it points to. The result is the return code, the buffer, the
  \<open>int\<close> at \<open>size\<close> and the registries after the call.

  The visitor lambdas pass their own parameter to \<open>copyAndReturn\<close> with \<open>std::move\<close>
  and read its \<open>size()\<close> again on the error path; what a moved-from container holds is
  left open by the language, so its length is the parameter \<open>moved\<close> (0 in the usual
  implementations).
\<close>

definition rtcReceiveMessage ::
  "nat \<Rightarrow> capi_state \<Rightarrow> int \<Rightarrow> char list option \<Rightarrow> int option
     \<Rightarrow> int \<times> char list option \<times> int option \<times> capi_state" where
  "rtcReceiveMessage moved st i buffer sz =
     (case getChannel st i of
        Inl e \<Rightarrow> (wrap (Inl e), buffer, sz, st)
      | Inr channel \<Rightarrow>
          (case sz of
             None \<Rightarrow>
               (wrap (Inl (invalid_argument ''Unexpected null pointer for size'')),
                buffer, None, st)
           | Some n \<Rightarrow>
               (case channel_peek channel of
                  None \<Rightarrow> (wrap (Inr RTC_ERR_NOT_AVAIL), buffer, Some \<bar>n\<bar>, st)
                | Some (Binary_message b) \<Rightarrow>
                    (case copyAndReturn_binary b buffer \<bar>n\<bar> of
                       (ret, buffer') \<Rightarrow>
                         if ret \<ge> 0
                         then (wrap (Inr RTC_ERR_SUCCESS), buffer', Some ret,
                               if buffer \<noteq> None
                               then putChannel st i (snd (channel_receive channel))
                               else st)
                         else (wrap (Inr ret), buffer', Some (int_of_size_t moved), st))
                | Some (String_message s) \<Rightarrow>
                    (case copyAndReturn_string s buffer \<bar>n\<bar> of
                       (ret, buffer') \<Rightarrow>
                         if ret \<ge> 0
                         then (wrap (Inr RTC_ERR_SUCCESS), buffer', Some (- ret),
                               if buffer \<noteq> None
                               then putChannel st i (snd (channel_receive channel))
                               else st)
                         else (wrap (Inr ret), buffer',
                               Some (- int_of_size_t (moved + 1)), st)))))"

subsection \<open>Tracks\<close>

text \<open>
  The codec of a \<open>rtcTrackInit\<close>: the enumerators the code names, and any other value
  of the C enumeration.
\<close>

datatype rtcCodec =
    RTC_CODEC_H264
  | RTC_CODEC_VP8
  | RTC_CODEC_VP9
  | RTC_CODEC_OPUS
  | RTC_CODEC_PCMU
  | RTC_CODEC_PCMA
  | RTC_CODEC_other int

text \<open>The members of \<open>rtcTrackInit\<close> the function reads; a \<open>const char *\<close> is \<open>None\<close> when null.\<close>

record rtcTrackInit =
  init_direction :: int
  init_codec :: rtcCodec
  init_payloadType :: int
  init_ssrc :: "32 word"
  init_mid :: "string option"
  init_name :: "string option"
  init_msid :: "string option"
  init_trackId :: "string option"

definition default_mid :: "rtcCodec \<Rightarrow> string" where
  "default_mid c =
     (case c of
        RTC_CODEC_H264 \<Rightarrow> ''video''
      | RTC_CODEC_VP8 \<Rightarrow> ''video''
      | RTC_CODEC_VP9 \<Rightarrow> ''video''
      | RTC_CODEC_OPUS \<Rightarrow> ''audio''
      | RTC_CODEC_PCMU \<Rightarrow> ''audio''
      | RTC_CODEC_PCMA \<Rightarrow> ''audio''
      | RTC_CODEC_other v \<Rightarrow> ''video'')"

text \<open>The two nested \<open>switch\<close> statements that build \<open>optDescription\<close>.\<close>

definition track_description :: "rtcCodec \<Rightarrow> string \<Rightarrow> int \<Rightarrow> int \<Rightarrow> media option" where
  "track_description c m d payloadType =
     (case c of
        RTC_CODEC_H264 \<Rightarrow> Some (addH264Codec payloadType (Description_Video m d))
      | RTC_CODEC_VP8 \<Rightarrow> Some (addVP8Codec payloadType (Description_Video m d))
      | RTC_CODEC_VP9 \<Rightarrow> Some (addVP8Codec payloadType (Description_Video m d))
      | RTC_CODEC_OPUS \<Rightarrow> Some (addOpusCodec payloadType (Description_Audio m d))
      | RTC_CODEC_PCMU \<Rightarrow> Some (addPCMUCodec payloadType (Description_Audio m d))
      | RTC_CODEC_PCMA \<Rightarrow> Some (addPCMACodec payloadType (Description_Audio m d))
      | RTC_CODEC_other v \<Rightarrow> None)"

definition rtcAddTrackEx :: "capi_state \<Rightarrow> int \<Rightarrow> rtcTrackInit option \<Rightarrow> int \<times> capi_state" where
  "rtcAddTrackEx st pc init =
     (case getPeerConnection st pc of
        Inl e \<Rightarrow> (wrap (Inl e), st)
      | Inr peerConnection \<Rightarrow>
          (case init of
             None \<Rightarrow> (wrap (Inl (invalid_argument ''Unexpected null pointer for track init'')), st)
           | Some ini \<Rightarrow>
               (let m = (case init_mid ini of
                           Some s \<Rightarrow> s
                         | None \<Rightarrow> default_mid (init_codec ini))
                in case track_description (init_codec ini) m (init_direction ini)
                          (init_payloadType ini) of
                     None \<Rightarrow> (wrap (Inl (invalid_argument ''Unexpected codec'')), st)
                   | Some optDescription \<Rightarrow>
                       (let desc = addSSRC (init_ssrc ini) (init_name ini) (init_msid ini)
                                     (init_trackId ini) optDescription
                        in case emplaceTrack st (addTrack desc) of
                             (tr, st') \<Rightarrow>
                               (wrap (Inr tr),
                                case getUserPointer st' pc of
                                  Some ptr \<Rightarrow> rtcSetUserPointer st' tr ptr
                                | None \<Rightarrow> st')))))"

section \<open>Properties of the queue\<close>

subsection \<open>Blocking of \<open>push\<close>\<close>

lemma push_blocks_iff:
  "push q x = None \<longleftrightarrow> mLimit q \<noteq> 0 \<and> mLimit q \<le> length (mQueue q) \<and> \<not> mStopping q"
  by (auto simp: push_def push_ready_def)

lemma push_not_stopping:
  "\<not> mStopping q \<Longrightarrow> push_ready q \<Longrightarrow>
   push q x = Some (q\<lparr>mAmount := mAmount q + mAmountFunction q x, mQueue := mQueue q @ [x]\<rparr>)"
  by (simp add: push_def pushImpl_def)

lemma push_stopping: "mStopping q \<Longrightarrow> push q x = Some q"
  by (simp add: push_def push_ready_def pushImpl_def)

text \<open>
  C1, as stated, fails: the wait predicate of \<open>push\<close> compares the number of elements
  with the limit and never looks at \<open>mAmount\<close> or at the amount of the new element.
  A queue with limit 1 whose amount function is the element's value accepts the
  element 5 at once, although \<open>amount + amountFn(x) = 5 > 1\<close> and \<open>stop()\<close> was not called.
\<close>

theorem push_amount_limit_counterexample:
  "push (Queue 1 (Some of_nat) :: nat queue) 5
     = Some ((Queue 1 (Some of_nat))\<lparr>mAmount := 5, mQueue := [5]\<rparr>)
   \<and> mLimit (Queue 1 (Some of_nat) :: nat queue) \<noteq> 0
   \<and> \<not> mStopping (Queue 1 (Some of_nat) :: nat queue)
   \<and> \<not> unat (amount (Queue 1 (Some of_nat) :: nat queue))
         + unat (mAmountFunction (Queue 1 (Some of_nat) :: nat queue) 5)
       \<le> mLimit (Queue 1 (Some of_nat) :: nat queue)"
  by (simp add: Queue_def push_def push_ready_def pushImpl_def amount_def)

subsection \<open>Returns of \<open>push\<close> in a run with waiting threads\<close>

lemma pushImpl_limit: "mLimit (pushImpl q x) = mLimit q"
  by (simp add: pushImpl_def)

lemma popImpl_limit: "mLimit (snd (popImpl q)) = mLimit q"
  by (simp add: popImpl_def split: list.split)

lemma exchange_limit: "mLimit (snd (exchange q x)) = mLimit q"
  by (simp add: exchange_def split: list.split)

lemma push_pass_Some:
  "push_pass waited x s = Some s' \<Longrightarrow>
   push_ready (sys_queue s) \<and> sys_queue s' = pushImpl (sys_queue s) x
   \<and> push_waiting s' = push_waiting s
   \<and> push_returned s' = push_returned s @
        [\<lparr>ret_element = x, ret_waited = waited, ret_before = sys_queue s,
          ret_after = pushImpl (sys_queue s) x\<rparr>]"
  by (auto simp: push_pass_def push_def split: if_splits)

lemma push_pass_None:
  "push_pass waited x s = None \<longleftrightarrow> \<not> push_ready (sys_queue s)"
  by (simp add: push_pass_def push_def)

lemma wake_push_returns:
  assumes "mLimit (sys_queue s) = limit" and "\<forall>r\<in>set (push_returned s). good_return limit r"
  shows "mLimit (sys_queue (wake_push i s)) = limit
       \<and> (\<forall>r\<in>set (push_returned (wake_push i s)). good_return limit r)"
proof (cases "push_pass True (fst (push_waiting s ! i)) s")
  case None
  then show ?thesis using assms by (simp add: wake_push_def)
next
  case (Some s')
  from push_pass_Some [OF Some] assms show ?thesis
    by (auto simp: wake_push_def Some good_return_def pushImpl_limit)
qed

lemma system_step_returns:
  assumes "mLimit (sys_queue s) = limit" and "\<forall>r\<in>set (push_returned s). good_return limit r"
  shows "mLimit (sys_queue (system_step e s)) = limit
       \<and> (\<forall>r\<in>set (push_returned (system_step e s)). good_return limit r)"
proof (cases e)
  case (Call_push x)
  show ?thesis
  proof (cases "push_pass False x s")
    case None
    then show ?thesis using assms Call_push by simp
  next
    case (Some s')
    from push_pass_Some [OF Some] assms show ?thesis
      by (auto simp: Call_push Some good_return_def pushImpl_limit)
  qed
next
  case Call_pop
  then show ?thesis using assms popImpl_limit [of "sys_queue s"]
    by (cases "popImpl (sys_queue s)") (auto simp: pop_def)
next
  case Call_tryPop
  then show ?thesis using assms by (simp add: tryPop_def popImpl_limit)
next
  case Call_peek
  then show ?thesis using assms by simp
next
  case (Call_exchange x)
  then show ?thesis using assms by (simp add: exchange_limit)
next
  case Call_stop
  then show ?thesis using assms by (simp add: stop_def)
next
  case (Notified_wake i)
  then show ?thesis using assms wake_push_returns [OF assms] by simp
next
  case (Spurious_wake i)
  then show ?thesis using assms wake_push_returns [OF assms] by simp
qed

lemma run_events_returns:
  "mLimit (sys_queue s) = limit \<Longrightarrow> \<forall>r\<in>set (push_returned s). good_return limit r \<Longrightarrow>
   mLimit (sys_queue (run_events es s)) = limit
   \<and> (\<forall>r\<in>set (push_returned (run_events es s)). good_return limit r)"
proof (induction es arbitrary: s)
  case Nil
  then show ?case by simp
next
  case (Cons e es)
  from system_step_returns [OF Cons.prems] Cons.IH [of "system_step e s"]
  show ?case by simp
qed

lemma good_return_cases:
  "good_return limit r \<Longrightarrow> limit \<noteq> 0 \<Longrightarrow>
   (mStopping (ret_before r) \<and> ret_after r = ret_before r)
   \<or> (\<not> mStopping (ret_before r) \<and> size_q (ret_before r) < mLimit (ret_before r)
      \<and> ret_after r = (ret_before r)
           \<lparr>mAmount := amount (ret_before r) + mAmountFunction (ret_before r) (ret_element r),
            mQueue := mQueue (ret_before r) @ [ret_element r]\<rparr>)"
  by (auto simp: good_return_def push_ready_def pushImpl_def size_q_def amount_def)

text \<open>
  C1 (amended): for a queue with a nonzero limit, in every state a run of calls and
  wake-ups reaches, a call of \<open>push(x)\<close> made while the number of elements \<open>size()\<close> is
  at least the limit and the queue is not stopped does not return but waits (the amount
  and the amount of \<open>x\<close> are not looked at); and every \<open>push(x)\<close> that returns, at its
  call or after waiting, returns having enqueued \<open>x\<close> (and having added \<open>amountFn(x)\<close>
  to the amount) only from a state with \<open>size() < limit\<close>, or returns from a stopped
  queue, and then without enqueuing \<open>x\<close>.
\<close>

theorem push_returns_on_element_count:
  assumes "mLimit q \<noteq> 0"
  shows "(mLimit q \<le> size_q (sys_queue (run_events es (start_system q)))
          \<and> \<not> mStopping (sys_queue (run_events es (start_system q))) \<longrightarrow>
            push (sys_queue (run_events es (start_system q))) x = None
            \<and> system_step (Call_push x) (run_events es (start_system q))
                = (run_events es (start_system q))
                    \<lparr>push_waiting :=
                       push_waiting (run_events es (start_system q)) @ [(x, False)]\<rparr>)
       \<and> (\<forall>r\<in>set (push_returned (run_events es (start_system q))).
            (mStopping (ret_before r) \<and> ret_after r = ret_before r)
            \<or> (\<not> mStopping (ret_before r)
               \<and> size_q (ret_before r) < mLimit (ret_before r)
               \<and> ret_after r = (ret_before r)
                    \<lparr>mAmount := amount (ret_before r)
                                + mAmountFunction (ret_before r) (ret_element r),
                     mQueue := mQueue (ret_before r) @ [ret_element r]\<rparr>))"
proof -
  have inv: "mLimit (sys_queue (run_events es (start_system q))) = mLimit q
    \<and> (\<forall>r\<in>set (push_returned (run_events es (start_system q))). good_return (mLimit q) r)"
    by (rule run_events_returns) (simp_all add: start_system_def)
  then have "\<forall>r\<in>set (push_returned (run_events es (start_system q))).
            (mStopping (ret_before r) \<and> ret_after r = ret_before r)
            \<or> (\<not> mStopping (ret_before r)
               \<and> size_q (ret_before r) < mLimit (ret_before r)
               \<and> ret_after r = (ret_before r)
                    \<lparr>mAmount := amount (ret_before r)
                                + mAmountFunction (ret_before r) (ret_element r),
                     mQueue := mQueue (ret_before r) @ [ret_element r]\<rparr>)"
    using good_return_cases [OF _ assms] by blast
  moreover have "mLimit q \<le> size_q (sys_queue (run_events es (start_system q)))
          \<and> \<not> mStopping (sys_queue (run_events es (start_system q))) \<longrightarrow>
            push (sys_queue (run_events es (start_system q))) x = None
            \<and> system_step (Call_push x) (run_events es (start_system q))
                = (run_events es (start_system q))
                    \<lparr>push_waiting :=
                       push_waiting (run_events es (start_system q)) @ [(x, False)]\<rparr>"
    using assms inv
    by (auto simp: push_def push_ready_def size_q_def push_pass_def)
  ultimately show ?thesis by blast
qed

theorem push_returns_on_element_count_witness:
  "mLimit (Queue 1 None :: nat queue) \<noteq> 0
   \<and> push (sys_queue (run_events [Call_push 7] (start_system (Queue 1 None :: nat queue)))) 8
       = None
   \<and> push_waiting (run_events [Call_push 7, Call_push 8, Call_tryPop]
        (start_system (Queue 1 None :: nat queue))) = [(8, False)]
   \<and> push_returned (run_events [Call_push 7, Call_push 8, Call_tryPop, Call_stop, Notified_wake 0]
        (start_system (Queue 1 None :: nat queue)))
     = [\<lparr>ret_element = 7, ret_waited = False, ret_before = Queue 1 None,
         ret_after = (Queue 1 None)\<lparr>mAmount := 1, mQueue := [7]\<rparr>\<rparr>,
        \<lparr>ret_element = 8, ret_waited = True, ret_before = stop (Queue 1 None),
         ret_after = stop (Queue 1 None)\<rparr>]"
  using push_returns_on_element_count
    [where q = "Queue 1 None :: nat queue" and x = 8
       and es = "[Call_push 7, Call_push 8, Call_tryPop, Call_stop, Notified_wake 0]"]
    push_returns_on_element_count
    [where q = "Queue 1 None :: nat queue" and x = 8 and es = "[Call_push 7]"]
  by (simp add: Queue_def start_system_def push_pass_def push_def push_ready_def pushImpl_def
      tryPop_def popImpl_def stop_def wake_push_def)

text \<open>
  What releases a waiting \<open>push\<close>: \<open>pop\<close>, \<open>tryPop\<close>, \<open>peek\<close> and \<open>exchange\<close> leave
  the waiting calls as they are, making room does not release them; \<open>stop\<close> notifies
  all of them. In a run where no thread wakes spuriously, a \<open>push\<close> that had to wait
  therefore returns only after \<open>stop()\<close>, and never enqueues its element.
\<close>

lemma pop_keeps_waiting:
  "push_waiting (system_step Call_pop s) = push_waiting s
   \<and> push_waiting (system_step Call_tryPop s) = push_waiting s
   \<and> push_waiting (system_step Call_peek s) = push_waiting s
   \<and> push_waiting (system_step (Call_exchange x) s) = push_waiting s
   \<and> push_returned (system_step Call_pop s) = push_returned s
   \<and> push_returned (system_step Call_tryPop s) = push_returned s
   \<and> push_returned (system_step Call_peek s) = push_returned s
   \<and> push_returned (system_step (Call_exchange x) s) = push_returned s"
  by (cases "pop (sys_queue s)") auto

lemma stop_notifies_all:
  "push_waiting (system_step Call_stop s) = map (\<lambda>w. (fst w, True)) (push_waiting s)
   \<and> mStopping (sys_queue (system_step Call_stop s))"
  by (simp add: stop_def)

lemma popImpl_keeps_stopping: "mStopping (snd (popImpl q)) = mStopping q"
  by (simp add: popImpl_def split: list.split)

lemma exchange_stopping: "mStopping (snd (exchange q x)) = mStopping q"
  by (simp add: exchange_def split: list.split)

lemma pushImpl_stopping: "mStopping (pushImpl q x) = mStopping q"
  by (simp add: pushImpl_def)

lemma notified_wake_inv:
  assumes "waited_inv s" and "i < length (push_waiting s)" and "snd (push_waiting s ! i)"
  shows "waited_inv (wake_push i s)"
proof -
  have st: "mStopping (sys_queue s)"
    using assms by (auto simp: waited_inv_def dest: nth_mem)
  then have p: "push_pass True (fst (push_waiting s ! i)) s
       = Some (s\<lparr>push_returned := push_returned s @
            [\<lparr>ret_element = fst (push_waiting s ! i), ret_waited = True,
              ret_before = sys_queue s, ret_after = sys_queue s\<rparr>]\<rparr>)"
    by (simp add: push_pass_def push_def push_ready_def pushImpl_def)
  have sub: "set (take i (push_waiting s) @ drop (Suc i) (push_waiting s)) \<subseteq> set (push_waiting s)"
    using set_take_subset [of i "push_waiting s"] set_drop_subset [of "Suc i" "push_waiting s"]
    by auto
  show ?thesis
    using assms(1) st sub by (auto simp: wake_push_def p waited_inv_def)
qed

lemma system_step_waited_inv:
  assumes "waited_inv s" and "\<not> is_spurious e"
  shows "waited_inv (system_step e s)"
proof (cases e)
  case (Call_push x)
  show ?thesis
  proof (cases "push_pass False x s")
    case None
    then show ?thesis using assms Call_push by (auto simp: waited_inv_def)
  next
    case (Some s')
    from push_pass_Some [OF Some] assms show ?thesis
      by (auto simp: Call_push Some waited_inv_def pushImpl_stopping)
  qed
next
  case Call_pop
  then show ?thesis using assms popImpl_keeps_stopping [of "sys_queue s"]
    by (cases "popImpl (sys_queue s)") (auto simp: pop_def waited_inv_def)
next
  case Call_tryPop
  then show ?thesis using assms by (auto simp: tryPop_def popImpl_keeps_stopping waited_inv_def)
next
  case Call_peek
  then show ?thesis using assms by simp
next
  case (Call_exchange x)
  then show ?thesis using assms by (auto simp: exchange_stopping waited_inv_def)
next
  case Call_stop
  then show ?thesis using assms by (auto simp: stop_def waited_inv_def)
next
  case (Notified_wake i)
  then show ?thesis using assms notified_wake_inv [of s i] by auto
next
  case (Spurious_wake i)
  then show ?thesis using assms by simp
qed

lemma run_events_waited_inv:
  "waited_inv s \<Longrightarrow> list_all (\<lambda>e. \<not> is_spurious e) es \<Longrightarrow> waited_inv (run_events es s)"
  by (induction es arbitrary: s) (auto simp: system_step_waited_inv)

lemma waited_push_never_enqueues:
  assumes "list_all (\<lambda>e. \<not> is_spurious e) es"
    and "r \<in> set (push_returned (run_events es (start_system q)))" and "ret_waited r"
  shows "mStopping (ret_before r) \<and> ret_after r = ret_before r"
proof -
  have "waited_inv (start_system q)" by (simp add: waited_inv_def start_system_def)
  from run_events_waited_inv [OF this assms(1)] assms(2,3) show ?thesis
    by (auto simp: waited_inv_def)
qed

subsection \<open>The amount invariant\<close>

lemma Queue_amount: "amount (Queue limit func) = sum_amount (Queue limit func)"
  by (simp add: Queue_def amount_def sum_amount_def)

lemma apply_queue_op_amount:
  "amount q = sum_amount q \<Longrightarrow> \<not> is_exchange c \<Longrightarrow>
   amount (apply_queue_op c q) = sum_amount (apply_queue_op c q)"
  by (cases c)
     (auto simp: amount_def sum_amount_def push_def pushImpl_def pop_def popImpl_def
        tryPop_def stop_def split: list.splits option.splits if_splits)

lemma apply_queue_op_function: "mAmountFunction (apply_queue_op c q) = mAmountFunction q"
  by (cases c)
     (auto simp: push_def pushImpl_def pop_def popImpl_def exchange_def
        tryPop_def stop_def split: list.splits option.splits if_splits)

text \<open>
  Every run without \<open>exchange\<close> keeps \<open>amount()\<close> equal to the sum of the amount
  function over the elements (in \<open>size_t\<close> arithmetic).
\<close>

lemma run_queue_ops_amount:
  "amount q = sum_amount q \<Longrightarrow> list_all (\<lambda>c. \<not> is_exchange c) cs \<Longrightarrow>
   amount (run_queue_ops cs q) = sum_amount (run_queue_ops cs q)"
  by (induction cs arbitrary: q) (auto simp: apply_queue_op_amount)

lemma apply_queue_op_default:
  "amount q = of_nat (size_q q) \<Longrightarrow> mAmountFunction q = (\<lambda>e. 1) \<Longrightarrow>
   amount (apply_queue_op c q) = of_nat (size_q (apply_queue_op c q))"
  by (cases c)
     (auto simp: amount_def size_q_def push_def pushImpl_def pop_def popImpl_def exchange_def
        tryPop_def stop_def split: list.splits option.splits if_splits)

text \<open>
  With the default amount function every run, \<open>exchange\<close> included, keeps \<open>amount()\<close>
  equal to \<open>size()\<close>.
\<close>

lemma run_queue_ops_default:
  "amount q = of_nat (size_q q) \<Longrightarrow> mAmountFunction q = (\<lambda>e. 1) \<Longrightarrow>
   amount (run_queue_ops cs q) = of_nat (size_q (run_queue_ops cs q))"
  by (induction cs arbitrary: q) (auto simp: apply_queue_op_default apply_queue_op_function)

lemma exchange_amount:
  "exchange q x = (Some y, q') \<Longrightarrow> amount q = sum_amount q \<Longrightarrow>
   sum_amount q' = amount q' - mAmountFunction q y + mAmountFunction q x"
  by (auto simp: exchange_def amount_def sum_amount_def split: list.splits)

text \<open>
  C2: \<open>exchange\<close> replaces the front element and leaves \<open>mAmount\<close> as it is, where
  \<open>pushImpl\<close> and \<open>popImpl\<close> adjust it. With the element's value as its amount: after
  \<open>push(1)\<close> and \<open>exchange(5)\<close> the queue holds the element 5 and \<open>amount()\<close> is still 1;
  the following \<open>tryPop()\<close> subtracts 5 and leaves an empty queue with
  \<open>amount() = 2 ^ 64 - 4\<close>.
\<close>

theorem exchange_breaks_amount:
  "amount (run_queue_ops [Push 1, Exchange 5] (Queue 0 (Some of_nat) :: nat queue)) = 1
   \<and> sum_amount (run_queue_ops [Push 1, Exchange 5] (Queue 0 (Some of_nat) :: nat queue)) = 5
   \<and> mQueue (run_queue_ops [Push 1, Exchange 5] (Queue 0 (Some of_nat) :: nat queue)) = [5]
   \<and> amount (run_queue_ops [Push 1, Exchange 5, TryPop] (Queue 0 (Some of_nat) :: nat queue))
       = 18446744073709551612
   \<and> mQueue (run_queue_ops [Push 1, Exchange 5, TryPop] (Queue 0 (Some of_nat) :: nat queue))
       = []"
  by (simp add: Queue_def push_def push_ready_def pushImpl_def exchange_def tryPop_def
        popImpl_def amount_def sum_amount_def)

subsection \<open>A stopped queue\<close>

lemma stop_fields:
  "mStopping (stop q)" "mQueue (stop q) = mQueue q" "mAmount (stop q) = mAmount q"
  by (simp_all add: stop_def)

lemma pops_stopped:
  "mStopping q \<Longrightarrow> mQueue q = xs \<Longrightarrow>
   \<exists>q'. pops (length xs + k) q = Some (map Some xs @ replicate k None, q')
        \<and> mQueue q' = [] \<and> mStopping q'"
proof (induction xs arbitrary: q)
  case Nil
  then show ?case
  proof (induction k)
    case 0
    then show ?case by simp
  next
    case (Suc k)
    then show ?case by (auto simp: pop_def pop_ready_def popImpl_def)
  qed
next
  case (Cons x xs)
  let ?q1 = "q\<lparr>mAmount := mAmount q - mAmountFunction q x, mQueue := xs\<rparr>"
  have p: "pop q = Some (Some x, ?q1)"
    using Cons.prems by (simp add: pop_def pop_ready_def popImpl_def)
  have "mStopping ?q1" "mQueue ?q1 = xs" using Cons.prems by simp_all
  from Cons.IH [OF this] obtain q' where
    "pops (length xs + k) ?q1 = Some (map Some xs @ replicate k None, q')"
    "mQueue q' = []" "mStopping q'" by blast
  with p show ?case by simp
qed

lemma tryPops_fifo:
  "mQueue q = xs \<Longrightarrow>
   fst (tryPops (length xs + k) q) = map Some xs @ replicate k None
   \<and> mQueue (snd (tryPops (length xs + k) q)) = []
   \<and> mStopping (snd (tryPops (length xs + k) q)) = mStopping q"
proof (induction xs arbitrary: q)
  case Nil
  then show ?case
    by (induction k) (auto simp: tryPop_def popImpl_def split: prod.splits)
next
  case (Cons x xs)
  let ?q1 = "q\<lparr>mAmount := mAmount q - mAmountFunction q x, mQueue := xs\<rparr>"
  have p: "tryPop q = (Some x, ?q1)"
    using Cons.prems by (simp add: tryPop_def popImpl_def)
  have "mQueue ?q1 = xs" by simp
  from Cons.IH [OF this] p show ?case
    by (cases "tryPops (length xs + k) ?q1") simp
qed

text \<open>
  C10: in a queue on which \<open>stop()\<close> has been called, \<open>push(x)\<close> returns at once and
  changes nothing (contents, \<open>size()\<close>, \<open>amount()\<close>); \<open>pop()\<close> does not block, returns
  what \<open>tryPop()\<close> returns and leaves the queue stopped; \<open>size() + k\<close> calls of \<open>pop()\<close>
  all return without blocking, first the elements in FIFO order, then \<open>none\<close> \<open>k\<close>
  times, and leave the queue empty, stopped and not running; \<open>tryPop()\<close> returns the
  same results; and \<open>running()\<close> holds exactly while elements remain.
\<close>

theorem stopped_queue:
  assumes "mStopping q"
  shows "push q x = Some q
       \<and> pop q = Some (tryPop q) \<and> mStopping (snd (tryPop q))
       \<and> (\<exists>q'. pops (size_q q + k) q = Some (map Some (mQueue q) @ replicate k None, q')
              \<and> mQueue q' = [] \<and> mStopping q' \<and> \<not> running q')
       \<and> fst (tryPops (size_q q + k) q) = map Some (mQueue q) @ replicate k None
       \<and> mQueue (snd (tryPops (size_q q + k) q)) = []
       \<and> mStopping (snd (tryPops (size_q q + k) q))
       \<and> (running q \<longleftrightarrow> mQueue q \<noteq> [])"
proof -
  have "\<exists>q'. pops (size_q q + k) q = Some (map Some (mQueue q) @ replicate k None, q')
              \<and> mQueue q' = [] \<and> mStopping q' \<and> \<not> running q'"
    using pops_stopped [OF assms refl, of k] by (auto simp: size_q_def running_def)
  moreover have "fst (tryPops (size_q q + k) q) = map Some (mQueue q) @ replicate k None
       \<and> mQueue (snd (tryPops (size_q q + k) q)) = []
       \<and> mStopping (snd (tryPops (size_q q + k) q))"
    using tryPops_fifo [OF refl, of q k] assms by (simp add: size_q_def)
  moreover have "running q \<longleftrightarrow> mQueue q \<noteq> []"
    using assms by (simp add: running_def)
  moreover have "pop q = Some (tryPop q) \<and> mStopping (snd (tryPop q))"
    using assms by (simp add: pop_def pop_ready_def tryPop_def popImpl_def split: list.split)
  ultimately show ?thesis using push_stopping [OF assms] by simp
qed

theorem stopped_queue_witness:
  "mStopping (stop (pushImpl (pushImpl (Queue 0 None) (1::nat)) 2))
   \<and> push (stop (pushImpl (pushImpl (Queue 0 None) (1::nat)) 2)) 3
       = Some (stop (pushImpl (pushImpl (Queue 0 None) (1::nat)) 2))
   \<and> fst (tryPops (size_q (stop (pushImpl (pushImpl (Queue 0 None) (1::nat)) 2)) + Suc 0)
            (stop (pushImpl (pushImpl (Queue 0 None) (1::nat)) 2)))
       = [Some 1, Some 2, None]
   \<and> running (stop (pushImpl (pushImpl (Queue 0 None) (1::nat)) 2))"
  using stopped_queue [of "stop (pushImpl (pushImpl (Queue 0 None) (1::nat)) 2)" 3 "Suc 0"]
  by (simp add: stop_def pushImpl_def Queue_def)

section \<open>Properties of the stored callback\<close>

text \<open>
  C7: invoking a synchronized stored callback while no callback is installed dispatches
  nothing and leaves the arguments of this call in the one slot \<open>stored\<close>, whatever the
  slot held before (a second miss overwrites the first); installing a non-null callback
  while the slot is full dispatches the stored call at once and clears the slot;
  installing a callback (null or not) while the slot is empty dispatches nothing.
\<close>

theorem stored_callback_one_slot:
  "(callback s = None \<longrightarrow>
      stored_callback_invoke a s w = (True, s\<lparr>stored := Some a\<rparr>, w)
      \<and> stored_callback_invoke b (s\<lparr>stored := Some a\<rparr>) w = (True, s\<lparr>stored := Some b\<rparr>, w))
   \<and> (stored s = Some a \<longrightarrow>
        stored_callback_assign (Some f) s w = (s\<lparr>callback := Some f, stored := None\<rparr>, f a w))
   \<and> (stored s = None \<longrightarrow>
        stored_callback_assign func s w = (s\<lparr>callback := func\<rparr>, w))"
  by (auto simp: stored_callback_invoke_def stored_callback_assign_def
      synchronized_stored_callback_call_def synchronized_stored_callback_set_def
      synchronized_callback_call_def synchronized_callback_set_def Let_def split: option.splits)

theorem stored_callback_one_slot_witness:
  "callback \<lparr>callback = None, stored = None\<rparr> = (None :: (nat \<Rightarrow> nat list \<Rightarrow> nat list) option)
   \<and> stored_callback_invoke (2::nat) \<lparr>callback = None, stored = Some 1\<rparr> ([]::nat list)
       = (True, \<lparr>callback = None, stored = Some 2\<rparr>, [])
   \<and> stored_callback_assign (Some Cons) \<lparr>callback = None, stored = Some (2::nat)\<rparr> []
       = (\<lparr>callback = Some Cons, stored = None\<rparr>, [2])
   \<and> stored_callback_assign (Some Cons) \<lparr>callback = None, stored = (None :: nat option)\<rparr> []
       = (\<lparr>callback = Some Cons, stored = None\<rparr>, [])"
  using stored_callback_one_slot [where s = "\<lparr>callback = None, stored = Some 1\<rparr>"
      and a = 1 and b = 2 and w = "[]::nat list" and f = Cons and func = None]
    stored_callback_one_slot [where s = "\<lparr>callback = None, stored = Some 2\<rparr>"
      and a = "2::nat" and b = 2 and w = "[]::nat list" and f = Cons and func = None]
    stored_callback_one_slot [where s = "\<lparr>callback = None, stored = None\<rparr>"
      and a = "2::nat" and b = 2 and w = "[]::nat list" and f = Cons and func = "Some Cons"]
  by simp

text \<open>
  Assigning the empty callback never dispatches and leaves the slot empty, whatever it
  held: the assignment copies the empty slot of the temporary.
\<close>

lemma stored_callback_assign_null:
  "stored_callback_assign None s w = (s\<lparr>callback := None, stored := None\<rparr>, w)"
  by (simp add: stored_callback_assign_def synchronized_stored_callback_set_def
      synchronized_callback_set_def)

section \<open>Properties of the payload protocol identifiers\<close>

text \<open>
  C8: the payload protocol identifiers of \<open>SctpTransport\<close> are control = 50,
  string = 51, binary-partial = 52, binary = 53, string-partial = 54, string-empty = 56
  and binary-empty = 57, and the enumeration has no other value.
\<close>

theorem PayloadId_values:
  "PayloadId_value PPID_CONTROL = 50
   \<and> PayloadId_value PPID_STRING = 51
   \<and> PayloadId_value PPID_BINARY_PARTIAL = 52
   \<and> PayloadId_value PPID_BINARY = 53
   \<and> PayloadId_value PPID_STRING_PARTIAL = 54
   \<and> PayloadId_value PPID_STRING_EMPTY = 56
   \<and> PayloadId_value PPID_BINARY_EMPTY = 57
   \<and> range PayloadId_value = {50, 51, 52, 53, 54, 56, 57}"
proof -
  have "range PayloadId_value = {50, 51, 52, 53, 54, 56, 57}"
  proof
    show "range PayloadId_value \<subseteq> {50, 51, 52, 53, 54, 56, 57}"
    proof
      fix v assume "v \<in> range PayloadId_value"
      then obtain p where "v = PayloadId_value p" by blast
      then show "v \<in> {50, 51, 52, 53, 54, 56, 57}" by (cases p) simp_all
    qed
    show "{50, 51, 52, 53, 54, 56, 57} \<subseteq> range PayloadId_value"
      by (auto intro: range_eqI [where x = PPID_CONTROL] range_eqI [where x = PPID_STRING]
          range_eqI [where x = PPID_BINARY_PARTIAL] range_eqI [where x = PPID_BINARY]
          range_eqI [where x = PPID_STRING_PARTIAL] range_eqI [where x = PPID_STRING_EMPTY]
          range_eqI [where x = PPID_BINARY_EMPTY])
  qed
  then show ?thesis by simp
qed

section \<open>Properties of \<open>WebSocket::outgoing\<close>\<close>

text \<open>
  C9: \<open>outgoing\<close> rejects with a \<open>runtime_error\<close> every message strictly larger than
  \<open>maxMessageSize()\<close>, and every message while the WebSocket is not in state \<open>Open\<close>;
  in both cases the WebSocket, and with it the list of messages handed to the lower
  transport, is as before. A call that reaches the lower transport was made in state
  \<open>Open\<close> with a message of at most \<open>maxMessageSize()\<close> bytes.
\<close>

theorem outgoing_rejects:
  "(length message > maxMessageSize D \<longrightarrow>
      (\<exists>what. outgoing D r ws message = (Inl (runtime_error what), ws)))
   \<and> (state ws \<noteq> Open \<longrightarrow>
      outgoing D r ws message = (Inl (runtime_error ''WebSocket is not open''), ws))
   \<and> (\<forall>res ws'. outgoing D r ws message = (Inr res, ws') \<longrightarrow>
        state ws = Open \<and> length message \<le> maxMessageSize D)"
  by (auto simp: outgoing_def Let_def split: if_splits)

theorem outgoing_rejects_witness:
  "length ''abcd'' > maxMessageSize 3 \<and> state \<lparr>state = Open, mWsTransport = Some \<lparr>handed = []\<rparr>\<rparr> = Open
   \<and> outgoing 3 (\<lambda>t m. True) \<lparr>state = Open, mWsTransport = Some \<lparr>handed = []\<rparr>\<rparr> ''abcd''
       = (Inl (runtime_error ''Message size exceeds limit''), \<lparr>state = Open, mWsTransport = Some \<lparr>handed = []\<rparr>\<rparr>)
   \<and> state \<lparr>state = Closing, mWsTransport = Some \<lparr>handed = []\<rparr>\<rparr> \<noteq> Open
   \<and> outgoing 3 (\<lambda>t m. True) \<lparr>state = Closing, mWsTransport = Some \<lparr>handed = []\<rparr>\<rparr> ''a''
       = (Inl (runtime_error ''WebSocket is not open''), \<lparr>state = Closing, mWsTransport = Some \<lparr>handed = []\<rparr>\<rparr>)"
  using outgoing_rejects [where message = "''abcd''" and D = 3 and r = "\<lambda>t m. True"
      and ws = "\<lparr>state = Open, mWsTransport = Some \<lparr>handed = []\<rparr>\<rparr>"]
    outgoing_rejects [where message = "''a''" and D = 3 and r = "\<lambda>t m. True"
      and ws = "\<lparr>state = Closing, mWsTransport = Some \<lparr>handed = []\<rparr>\<rparr>"]
  by (simp add: maxMessageSize_def outgoing_def)

section \<open>Properties of the C API adapter\<close>

subsection \<open>Evaluation rules\<close>

lemmas registry_defs =
  initial_state_def emplace_def getUserPointer_def setUserPointer_def rtcSetUserPointer_def
  getPeerConnection_def getDataChannel_def getTrack_def emplacePeerConnection_def
  emplaceDataChannel_def emplaceTrack_def getChannel_def putChannel_def putPeerConnection_def
  new_channel_def new_PeerConnection_def createDataChannel_def addTrack_def
  RTC_ERR_SUCCESS_def RTC_ERR_INVALID_def RTC_ERR_FAILURE_def RTC_ERR_NOT_AVAIL_def
  RTC_ERR_TOO_SMALL_def

lemmas callback_defs =
  rtcCreatePeerConnection_def rtcSetStateChangeCallback_def
  rtcSetGatheringStateChangeCallback_def rtcSetSignalingStateChangeCallback_def
  onStateChange_def onGatheringStateChange_def onSignalingStateChange_def

lemma int_of_size_t_small: "n < 2 ^ 31 \<Longrightarrow> int_of_size_t n = int n"
proof -
  assume "n < 2 ^ 31"
  then have "int n < 2 ^ 31" by (metis of_nat_less_iff of_nat_numeral of_nat_power)
  moreover have "- (2 ^ 31) \<le> int n" by simp
  ultimately have "signed_take_bit 31 (int n) = int n"
    by (simp add: signed_take_bit_int_eq_self)
  then show ?thesis
    by (simp add: int_of_size_t_def signed_of_nat)
qed

lemma int_of_size_t_Suc [simp]:
  "n < 2147483647 \<Longrightarrow> int_of_size_t (Suc n) = int n + 1"
  using int_of_size_t_small [of "Suc n"] by simp

text \<open>
  Beyond this range the conversion wraps: the size of a string of \<open>2 ^ 31 - 1\<close> bytes,
  terminator included, becomes \<open>INT_MIN\<close>.
\<close>

lemma int_of_size_t_wraps:
  "int_of_size_t 2147483648 = - 2147483648" "int_of_size_t 2147483649 = - 2147483647"
  by (simp_all add: int_of_size_t_def)

subsection \<open>The signaling-state callback\<close>

text \<open>
  With a non-null callback \<open>rtcSetSignalingStateChangeCallback\<close> writes the
  signaling-state slot only; with a null callback it clears the gathering-state slot
  and leaves the signaling-state slot as it was.
\<close>

lemma signaling_nonnull_keeps_gathering:
  "peerConnectionMap st pc = Some p \<Longrightarrow>
   rtcSetSignalingStateChangeCallback st pc (Some f)
     = (RTC_ERR_SUCCESS, putPeerConnection st pc (p\<lparr>signalingStateChangeCallback := Some (pc, f)\<rparr>))"
  by (simp add: rtcSetSignalingStateChangeCallback_def getPeerConnection_def
      onSignalingStateChange_def)

lemma signaling_null_clears_gathering:
  "peerConnectionMap st pc = Some p \<Longrightarrow>
   rtcSetSignalingStateChangeCallback st pc None
     = (RTC_ERR_SUCCESS, putPeerConnection st pc (p\<lparr>gatheringStateChangeCallback := None\<rparr>))"
  by (simp add: rtcSetSignalingStateChangeCallback_def getPeerConnection_def
      onGatheringStateChange_def)

text \<open>
  C3: on a fresh peer connection (handle 1) with the gathering-state callback 7
  installed by \<open>rtcSetGatheringStateChangeCallback\<close>, the call
  \<open>rtcSetSignalingStateChangeCallback(1, NULL)\<close> returns \<open>RTC_ERR_SUCCESS\<close> and
  leaves the gathering-state slot empty: the \<open>else\<close> branch calls
  \<open>onGatheringStateChange(nullptr)\<close>.
\<close>

theorem signaling_null_clears_gathering_slot:
  "rtcCreatePeerConnection initial_state
     = (1, \<lparr>peerConnectionMap = [1 \<mapsto> new_PeerConnection], dataChannelMap = Map.empty,
            trackMap = Map.empty, userPointerMap = [1 \<mapsto> 0], lastId = 1\<rparr>)
   \<and> rtcSetGatheringStateChangeCallback
        \<lparr>peerConnectionMap = [1 \<mapsto> new_PeerConnection], dataChannelMap = Map.empty,
         trackMap = Map.empty, userPointerMap = [1 \<mapsto> 0], lastId = 1\<rparr> 1 (Some 7)
     = (RTC_ERR_SUCCESS,
        \<lparr>peerConnectionMap =
           [1 \<mapsto> new_PeerConnection\<lparr>gatheringStateChangeCallback := Some (1, 7)\<rparr>],
         dataChannelMap = Map.empty, trackMap = Map.empty, userPointerMap = [1 \<mapsto> 0],
         lastId = 1\<rparr>)
   \<and> rtcSetSignalingStateChangeCallback
        \<lparr>peerConnectionMap =
           [1 \<mapsto> new_PeerConnection\<lparr>gatheringStateChangeCallback := Some (1, 7)\<rparr>],
         dataChannelMap = Map.empty, trackMap = Map.empty, userPointerMap = [1 \<mapsto> 0],
         lastId = 1\<rparr> 1 None
     = (RTC_ERR_SUCCESS,
        \<lparr>peerConnectionMap = [1 \<mapsto> new_PeerConnection\<lparr>gatheringStateChangeCallback := None\<rparr>],
         dataChannelMap = Map.empty, trackMap = Map.empty, userPointerMap = [1 \<mapsto> 0],
         lastId = 1\<rparr>)"
  by (simp add: registry_defs callback_defs)

subsection \<open>The buffer-copy convention\<close>





lemma copyAndReturn_string_wraps:
  "length s = 2147483647 \<Longrightarrow> copyAndReturn_string s None sz = (- 2147483648, None)"
  by (simp add: copyAndReturn_string_def int_of_size_t_def)




subsection \<open>The size reported for a string message\<close>

lemma message_lambda_string_size:
  "length s + 1 < 2 ^ 31 \<Longrightarrow> message_lambda_string st h cb s = Some c \<Longrightarrow>
   call_size c = - (int (length s) + 1) \<and> call_data c = s @ [CHR 0x00]"
  by (auto simp: message_lambda_string_def split: option.splits)

lemma deliver_string_size:
  "length s + 1 < 2 ^ 31 \<Longrightarrow> deliver_message st i (String_message s) = Some c \<Longrightarrow>
   call_size c = - (int (length s) + 1)"
  by (auto simp: deliver_message_def message_lambda_string_size
      split: sum.splits option.splits)

lemma rtcReceiveMessage_string_success:
  assumes "length s + 1 < 2 ^ 31"
    and "getChannel st i = Inr c" and "channel_peek c = Some (String_message s)"
    and "rtcReceiveMessage moved st i buffer (Some n) = (RTC_ERR_SUCCESS, buffer', sz', st')"
  shows "sz' = Some (- (int (length s) + 1))"
proof (cases "copyAndReturn_string s buffer \<bar>n\<bar>")
  case (Pair ret buf)
  have "ret = RTC_ERR_TOO_SMALL \<or> ret = int (length s) + 1"
    using Pair assms(1)
    by (auto simp: copyAndReturn_string_def split: option.splits if_splits)
  then show ?thesis
    using assms Pair
    by (auto simp: rtcReceiveMessage_def RTC_ERR_TOO_SMALL_def RTC_ERR_SUCCESS_def
        split: if_splits)
qed

lemma message_lambda_string_wraps:
  "length s = 2147483648 \<Longrightarrow> getUserPointer st h = Some ptr \<Longrightarrow>
   map_option call_size (message_lambda_string st h cb s) = Some 2147483647"
  by (simp add: message_lambda_string_def int_of_size_t_def)

text \<open>
  C5, as stated, fails in its second half: the size reported for a string counts the
  null terminator. With the message callback 9 installed on the data channel 2, the
  string \<open>hi\<close> is delivered with size \<open>-3\<close>, and \<open>|-3| = 3\<close> is not the length 2 of
  the string.
\<close>

theorem string_size_counterexample:
  "rtcSetMessageCallback
     \<lparr>peerConnectionMap = [1 \<mapsto> new_PeerConnection],
      dataChannelMap = [2 \<mapsto> createDataChannel ''chat'' []],
      trackMap = Map.empty, userPointerMap = [1 \<mapsto> 0, 2 \<mapsto> 0], lastId = 2\<rparr> 2 (Some 9)
   = (RTC_ERR_SUCCESS,
      \<lparr>peerConnectionMap = [1 \<mapsto> new_PeerConnection],
       dataChannelMap =
         [2 \<mapsto> \<lparr>dc_channel = \<lparr>recvQueue = [], messageCallback = Some (2, 9)\<rparr>,
                 label = ''chat'', protocol = []\<rparr>],
       trackMap = Map.empty, userPointerMap = [1 \<mapsto> 0, 2 \<mapsto> 0], lastId = 2\<rparr>)
   \<and> deliver_message
      \<lparr>peerConnectionMap = [1 \<mapsto> new_PeerConnection],
       dataChannelMap =
         [2 \<mapsto> \<lparr>dc_channel = \<lparr>recvQueue = [], messageCallback = Some (2, 9)\<rparr>,
                 label = ''chat'', protocol = []\<rparr>],
       trackMap = Map.empty, userPointerMap = [1 \<mapsto> 0, 2 \<mapsto> 0], lastId = 2\<rparr>
      2 (String_message ''hi'')
   = Some \<lparr>call_cb = 9, call_id = 2, call_data = ''hi'' @ [CHR 0x00], call_size = - 3,
           call_ptr = 0\<rparr>
   \<and> \<bar>- 3 :: int\<bar> \<noteq> int (length ''hi'')"
  by (simp add: rtcSetMessageCallback_def deliver_message_def message_lambda_string_def
      onMessage_def registry_defs int_of_size_t_def)

text \<open>
  C5 (amended): whenever a channel delivers a string message of fewer than
  \<open>2 ^ 31 - 1\<close> bytes through the C ABI, by the message callback installed by
  \<open>rtcSetMessageCallback\<close> or by a call of \<open>rtcReceiveMessage\<close> that returns
  \<open>RTC_ERR_SUCCESS\<close>, the size reported to the caller is negative and its absolute
  value is the string's length plus one, that is, the length including the null
  terminator.
\<close>

theorem string_size_includes_terminator:
  assumes "length s + 1 < 2 ^ 31"
  shows "(\<forall>c. deliver_message st i (String_message s) = Some c \<longrightarrow>
            call_size c < 0 \<and> \<bar>call_size c\<bar> = int (length s) + 1)
       \<and> (\<forall>ch moved buffer n buffer' sz' st'.
            getChannel st i = Inr ch \<and> channel_peek ch = Some (String_message s)
            \<and> rtcReceiveMessage moved st i buffer (Some n)
                = (RTC_ERR_SUCCESS, buffer', sz', st')
            \<longrightarrow> (\<exists>k. sz' = Some k \<and> k < 0 \<and> \<bar>k\<bar> = int (length s) + 1))"
  using deliver_string_size [OF assms] rtcReceiveMessage_string_success [OF assms]
  by fastforce

theorem string_size_includes_terminator_witness:
  "length ''hi'' + 1 < (2::nat) ^ 31
   \<and> deliver_message
        \<lparr>peerConnectionMap = [1 \<mapsto> new_PeerConnection],
         dataChannelMap =
           [2 \<mapsto> \<lparr>dc_channel = \<lparr>recvQueue = [String_message ''hi''],
                                  messageCallback = Some (2, 9)\<rparr>,
                   label = ''chat'', protocol = []\<rparr>],
         trackMap = Map.empty, userPointerMap = [1 \<mapsto> 0, 2 \<mapsto> 0], lastId = 2\<rparr>
        2 (String_message ''hi'')
       = Some \<lparr>call_cb = 9, call_id = 2, call_data = ''hi'' @ [CHR 0x00], call_size = - 3,
               call_ptr = 0\<rparr>
   \<and> rtcReceiveMessage 0
        \<lparr>peerConnectionMap = [1 \<mapsto> new_PeerConnection],
         dataChannelMap =
           [2 \<mapsto> \<lparr>dc_channel = \<lparr>recvQueue = [String_message ''hi''],
                                  messageCallback = Some (2, 9)\<rparr>,
                   label = ''chat'', protocol = []\<rparr>],
         trackMap = Map.empty, userPointerMap = [1 \<mapsto> 0, 2 \<mapsto> 0], lastId = 2\<rparr>
        2 (Some ''........'') (Some 8)
       = (RTC_ERR_SUCCESS, Some (''hi'' @ [CHR 0x00] @ ''.....''), Some (- 3),
          \<lparr>peerConnectionMap = [1 \<mapsto> new_PeerConnection],
           dataChannelMap =
             [2 \<mapsto> \<lparr>dc_channel = \<lparr>recvQueue = [], messageCallback = Some (2, 9)\<rparr>,
                     label = ''chat'', protocol = []\<rparr>],
           trackMap = Map.empty, userPointerMap = [1 \<mapsto> 0, 2 \<mapsto> 0], lastId = 2\<rparr>)"
  using string_size_includes_terminator
    [where s = "''hi''" and i = 2
       and st = "\<lparr>peerConnectionMap = [1 \<mapsto> new_PeerConnection],
         dataChannelMap =
           [2 \<mapsto> \<lparr>dc_channel = \<lparr>recvQueue = [String_message ''hi''],
                                  messageCallback = Some (2, 9)\<rparr>,
                   label = ''chat'', protocol = []\<rparr>],
         trackMap = Map.empty, userPointerMap = [1 \<mapsto> 0, 2 \<mapsto> 0], lastId = 2\<rparr>"]
  by (simp add: deliver_message_def message_lambda_string_def rtcReceiveMessage_def
      channel_peek_def channel_receive_def copyAndReturn_string_def registry_defs
      int_of_size_t_def)

subsection \<open>The codec of a track\<close>

lemma track_description_VP9:
  "track_description RTC_CODEC_VP9 m d pt = track_description RTC_CODEC_VP8 m d pt"
  by (simp add: track_description_def)

lemma rtcAddTrackEx_VP9_is_VP8:
  "rtcAddTrackEx st pc (Some (ini\<lparr>init_codec := RTC_CODEC_VP9\<rparr>))
     = rtcAddTrackEx st pc (Some (ini\<lparr>init_codec := RTC_CODEC_VP8\<rparr>))"
  by (cases "getPeerConnection st pc")
     (simp_all add: rtcAddTrackEx_def track_description_def default_mid_def
        split: option.split)

text \<open>
  C6: on a fresh peer connection (handle 1), \<open>rtcAddTrackEx\<close> with codec
  \<open>RTC_CODEC_VP9\<close> and payload type 98 does not reject the call: it returns the new
  track handle 2, and the media description of the created track holds the VP8
  registration of payload type 98 and no VP9 registration. (By the lemma above this is
  what the call with \<open>RTC_CODEC_VP8\<close> creates.)
\<close>

theorem rtcAddTrackEx_VP9_registers_VP8:
  "rtcAddTrackEx
     \<lparr>peerConnectionMap = [1 \<mapsto> new_PeerConnection], dataChannelMap = Map.empty,
      trackMap = Map.empty, userPointerMap = [1 \<mapsto> 0], lastId = 1\<rparr> 1
     (Some \<lparr>init_direction = 1, init_codec = RTC_CODEC_VP9, init_payloadType = 98,
            init_ssrc = 42, init_mid = None, init_name = None, init_msid = None,
            init_trackId = None\<rparr>)
   = (2,
      \<lparr>peerConnectionMap = [1 \<mapsto> new_PeerConnection], dataChannelMap = Map.empty,
       trackMap =
         [2 \<mapsto> \<lparr>tr_channel = new_channel,
                 mMediaDescription =
                   \<lparr>kind = Video, mid = ''video'', direction = 1, codecs = [VP8Codec 98],
                    ssrcs = [(42, None, None, None)]\<rparr>\<rparr>],
       userPointerMap = [1 \<mapsto> 0, 2 \<mapsto> 0], lastId = 2\<rparr>)"
  by (simp add: rtcAddTrackEx_def track_description_def default_mid_def registry_defs
      addVP8Codec_def Description_Video_def addSSRC_def Let_def)

end
